theory Spec2Isabelle
  imports Main "HOL-Library.Sublist"
begin

section \<open>Data model (client/src/lib/supabase.ts)\<close>

text \<open>
  JavaScript values of the TypeScript type \<^verbatim>\<open>unknown\<close>, as far as JSON can carry them,
  with the language's truthiness: \<^verbatim>\<open>null\<close>, \<^verbatim>\<open>false\<close>, \<^verbatim>\<open>0\<close> and the empty string are
  falsy, every object is truthy.
\<close>

datatype js_value =
    JNull
  | JBool bool
  | JNum int
  | JStr string
  | JObj "(string \<times> string) list"

fun truthy :: "js_value \<Rightarrow> bool" where
  "truthy JNull = False"
| "truthy (JBool b) = b"
| "truthy (JNum n) = (n \<noteq> 0)"
| "truthy (JStr s) = (s \<noteq> [])"
| "truthy (JObj kvs) = True"

text \<open>
  An optional property that may also hold \<^verbatim>\<open>null\<close>: \<^verbatim>\<open>automation_status?: AutomationStatus\<close>
  is declared optional, and the merge of \<^verbatim>\<open>fetchIssues\<close> stores \<^verbatim>\<open>null\<close> in it.
\<close>

datatype 'a js_field = Absent | Null | Val 'a

datatype automation_state = Pending | Running | Completed | Failed

text \<open>\<^verbatim>\<open>status: "pending" | "running" | "completed" | "failed" | null\<close>: \<open>None\<close> is \<^verbatim>\<open>null\<close>.\<close>

record AutomationStatus =
  status :: "automation_state option"
  started_at :: "string option"
  completed_at :: "string option"
  error_message :: "string option"
  task_id :: "string option"

datatype issue_state = IssueOpen | IssueClosed

record github_user =
  login :: string
  avatar_url :: string

record github_label =
  label_name :: string
  color :: string

text \<open>
  \<^verbatim>\<open>GitHubIssue & { pull_request?: unknown }\<close>, the type \<^verbatim>\<open>fetchIssues\<close> gives the items
  of the remote array. The cast \<^verbatim>\<open>as GitHubIssue[]\<close> changes no object, so the items keep
  the marker field at run time and one record serves for both. \<^verbatim>\<open>id\<close> and \<^verbatim>\<open>state\<close> are
  renamed (\<open>id\<close> is a HOL constant, \<open>state\<close> is kept for the filter criteria).
\<close>

record GitHubIssue =
  issue_id :: int
  number :: int
  title :: string
  body :: "string option"
  issue_state :: issue_state
  created_at :: string
  updated_at :: string
  html_url :: string
  user :: github_user
  labels :: "github_label list"
  assignees :: "github_user list"
  automation_status :: "AutomationStatus js_field"
  pull_request :: "js_value option"

section \<open>Numbers as strings\<close>

text \<open>
  \<^verbatim>\<open>Number.prototype.toString()\<close> and the conversion of a template literal, on the
  integers the program meets (issue numbers, HTTP status codes): the decimal digits, with
  a minus sign for a negative number.
\<close>

definition digit_char :: "nat \<Rightarrow> char" where
  "digit_char d = ''0123456789'' ! d"

fun nat_digits :: "nat \<Rightarrow> string" where
  "nat_digits n =
     (if n < 10 then [digit_char n] else nat_digits (n div 10) @ [digit_char (n mod 10)])"

declare nat_digits.simps [simp del]

definition toString :: "int \<Rightarrow> string" where
  "toString i = (if i < 0 then CHR ''-'' # nat_digits (nat (- i)) else nat_digits (nat i))"

section \<open>Automation status merge (fetchIssues, lines 94-99)\<close>

text \<open>
  The mapping \<^verbatim>\<open>automationStatuses\<close> is a JSON object from issue numbers, as strings, to
  automation status objects. A key that is missing reads as \<^verbatim>\<open>undefined\<close>, and an
  object is truthy, so \<^verbatim>\<open>automationStatuses[k] || null\<close> is the object when the key is
  there and \<^verbatim>\<open>null\<close> when it is not. The spread \<^verbatim>\<open>{...issue, automation_status: v}\<close>
  copies every property of the issue and sets the one.
\<close>

type_synonym status_map = "string \<rightharpoonup> AutomationStatus"

definition or_null :: "'a option \<Rightarrow> 'a js_field" where
  "or_null v = (case v of None \<Rightarrow> Null | Some x \<Rightarrow> Val x)"

definition mergeIssue :: "status_map \<Rightarrow> GitHubIssue \<Rightarrow> GitHubIssue" where
  "mergeIssue automationStatuses issue =
     issue\<lparr>automation_status := or_null (automationStatuses (toString (number issue)))\<rparr>"

definition mergeAutomationStatus :: "status_map \<Rightarrow> GitHubIssue list \<Rightarrow> GitHubIssue list" where
  "mergeAutomationStatus automationStatuses issues = map (mergeIssue automationStatuses) issues"

section \<open>Filter criteria (IssuesState["filters"])\<close>

datatype state_filter = StateAll | StateOpen | StateClosed

datatype sort_key = Created | Updated | Comments

datatype sort_direction = Asc | Desc

text \<open>The string each value is in the source.\<close>

fun state_str :: "state_filter \<Rightarrow> string" where
  "state_str StateAll = ''all''"
| "state_str StateOpen = ''open''"
| "state_str StateClosed = ''closed''"

fun sort_str :: "sort_key \<Rightarrow> string" where
  "sort_str Created = ''created''"
| "sort_str Updated = ''updated''"
| "sort_str Comments = ''comments''"

fun direction_str :: "sort_direction \<Rightarrow> string" where
  "direction_str Asc = ''asc''"
| "direction_str Desc = ''desc''"

text \<open>\<open>sort\<close> is a HOL constant, so the field is \<open>sort_by\<close>.\<close>

record FilterCriteria =
  state :: state_filter
  assignee :: string
  label :: string
  sort_by :: sort_key
  direction :: sort_direction

text \<open>\<^verbatim>\<open>Partial<IssuesState["filters"]>\<close>: every key may be missing (\<open>None\<close>).\<close>

record PartialFilters =
  p_state :: "state_filter option"
  p_assignee :: "string option"
  p_label :: "string option"
  p_sort :: "sort_key option"
  p_direction :: "sort_direction option"

definition all_fields :: "FilterCriteria \<Rightarrow> PartialFilters" where
  "all_fields f =
     \<lparr>p_state = Some (state f), p_assignee = Some (assignee f), p_label = Some (label f),
      p_sort = Some (sort_by f), p_direction = Some (direction f)\<rparr>"

text \<open>The spread \<^verbatim>\<open>{ ...state.filters, ...action.payload }\<close> of \<^verbatim>\<open>setFilters\<close>.\<close>

definition spread_filters :: "FilterCriteria \<Rightarrow> PartialFilters \<Rightarrow> FilterCriteria" where
  "spread_filters f p =
     \<lparr>state = (case p_state p of None \<Rightarrow> state f | Some v \<Rightarrow> v),
      assignee = (case p_assignee p of None \<Rightarrow> assignee f | Some v \<Rightarrow> v),
      label = (case p_label p of None \<Rightarrow> label f | Some v \<Rightarrow> v),
      sort_by = (case p_sort p of None \<Rightarrow> sort_by f | Some v \<Rightarrow> v),
      direction = (case p_direction p of None \<Rightarrow> direction f | Some v \<Rightarrow> v)\<rparr>"

section \<open>The query of fetchIssues (lines 42-60)\<close>

text \<open>
  \<^verbatim>\<open>URLSearchParams\<close> is a list of name and value pairs in the order of the \<^verbatim>\<open>append\<close>
  calls. \<^verbatim>\<open>filters?.state\<close> is \<^verbatim>\<open>undefined\<close> when \<^verbatim>\<open>filters\<close> or the key is missing;
  \<^verbatim>\<open>undefined\<close> and the empty string are falsy, the strings of the three enumerations
  are not empty and so truthy.
\<close>

definition optional_chain :: "'r option \<Rightarrow> ('r \<Rightarrow> 'a option) \<Rightarrow> 'a option" where
  "optional_chain obj field = (case obj of None \<Rightarrow> None | Some r \<Rightarrow> field r)"

definition build_params :: "PartialFilters option \<Rightarrow> (string \<times> string) list" where
  "build_params filters =
     (case optional_chain filters p_state of
        None \<Rightarrow> []
      | Some s \<Rightarrow> if s \<noteq> StateAll then [(''state'', state_str s)] else [])
     @ (case optional_chain filters p_assignee of
          None \<Rightarrow> []
        | Some a \<Rightarrow> if a \<noteq> [] then [(''assignee'', a)] else [])
     @ (case optional_chain filters p_label of
          None \<Rightarrow> []
        | Some l \<Rightarrow> if l \<noteq> [] then [(''labels'', l)] else [])
     @ [(''sort'', (case optional_chain filters p_sort of
                      None \<Rightarrow> ''created'' | Some k \<Rightarrow> sort_str k))]
     @ [(''direction'', (case optional_chain filters p_direction of
                           None \<Rightarrow> ''desc'' | Some d \<Rightarrow> direction_str d))]
     @ [(''per_page'', ''100'')]"

text \<open>\<^verbatim>\<open>URLSearchParams.getAll(name)\<close>: the values appended under a name, in order.\<close>

definition getAll :: "(string \<times> string) list \<Rightarrow> string \<Rightarrow> string list" where
  "getAll params k = map snd (filter (\<lambda>kv. fst kv = k) params)"

text \<open>
  \<^verbatim>\<open>URLSearchParams.toString()\<close>: the application/x-www-form-urlencoded serialisation
  of the bytes of each name and value. Letters, digits and \<^verbatim>\<open>*-._\<close> stand for
  themselves, a space becomes \<^verbatim>\<open>+\<close>, any other byte \<^verbatim>\<open>%XX\<close> in upper-case hexadecimal;
  pairs are written \<^verbatim>\<open>name=value\<close> and joined by \<^verbatim>\<open>&\<close>.
\<close>

definition hex_digit :: "nat \<Rightarrow> char" where
  "hex_digit d = ''0123456789ABCDEF'' ! d"

definition form_plain :: "char \<Rightarrow> bool" where
  "form_plain c \<longleftrightarrow>
     c \<in> set ''abcdefghijklmnopqrstuvwxyzABCDEFGHIJKLMNOPQRSTUVWXYZ0123456789*-._''"

definition form_encode_char :: "char \<Rightarrow> string" where
  "form_encode_char c =
     (if form_plain c then [c]
      else if c = CHR '' '' then ''+''
      else [CHR ''%'', hex_digit (of_char c div 16), hex_digit (of_char c mod 16)])"

definition form_encode :: "string \<Rightarrow> string" where
  "form_encode s = concat (map form_encode_char s)"

fun join_amp :: "string list \<Rightarrow> string" where
  "join_amp [] = []"
| "join_amp [p] = p"
| "join_amp (p # q # ps) = p @ ''&'' @ join_amp (q # ps)"

definition params_toString :: "(string \<times> string) list \<Rightarrow> string" where
  "params_toString params =
     join_amp (map (\<lambda>kv. form_encode (fst kv) @ ''='' @ form_encode (snd kv)) params)"

record fetch_args =
  owner :: string
  repo :: string
  filters_arg :: "PartialFilters option"

definition issues_url :: "fetch_args \<Rightarrow> string" where
  "issues_url args =
     ''https://api.github.com/repos/'' @ owner args @ ''/'' @ repo args @ ''/issues?''
       @ params_toString (build_params (filters_arg args))"

section \<open>Requests and responses\<close>

text \<open>
  A call of \<^verbatim>\<open>fetch\<close>: the method (\<^verbatim>\<open>GET\<close> when the source names none), the URL and
  the headers.
\<close>

record request =
  http_method :: string
  url :: string
  headers :: "(string \<times> string) list"

datatype js_error = Error (message: string)

text \<open>
  What \<^verbatim>\<open>fetch\<close> resolves to: the status, the reason phrase and what \<^verbatim>\<open>json()\<close> gives,
  a value of the expected shape or an exception (a body that is not JSON, or not of that
  shape, so that reading it throws). \<^verbatim>\<open>response.ok\<close> is a status from 200 to 299.
  \<open>status\<close> names the field of the automation status, so the response's is
  \<open>status_code\<close>.
\<close>

record 'b response =
  status_code :: int
  statusText :: string
  json :: "js_error + 'b"

definition ok :: "'b response \<Rightarrow> bool" where
  "ok r \<longleftrightarrow> 200 \<le> status_code r \<and> status_code r \<le> 299"

text \<open>\<^verbatim>\<open>await fetch(...)\<close> either throws (no response at all) or resolves to a response.\<close>

datatype 'b fetched = Threw js_error | Responded "'b response"

text \<open>The body of the automation-status endpoint; the key may be missing.\<close>

record automation_data =
  automation_statuses :: "status_map option"

section \<open>fetchIssues (lines 31-107)\<close>

text \<open>
  \<^verbatim>\<open>import.meta.env.VITE_GITHUB_TOKEN\<close> is a parameter: the \<^verbatim>\<open>Authorization\<close> header is
  sent when it is set and not empty.
\<close>

definition issues_request :: "string option \<Rightarrow> fetch_args \<Rightarrow> request" where
  "issues_request token args =
     \<lparr>http_method = ''GET'', url = issues_url args,
      headers = (''Accept'', ''application/vnd.github.v3+json'')
        # (case token of
             None \<Rightarrow> []
           | Some t \<Rightarrow> if t \<noteq> [] then [(''Authorization'', ''token '' @ t)] else [])\<rparr>"

definition automation_request :: "fetch_args \<Rightarrow> request" where
  "automation_request args =
     \<lparr>http_method = ''GET'',
      url = ''http://localhost:8000/automation-status/'' @ owner args @ ''/'' @ repo args,
      headers = []\<rparr>"

text \<open>\<^verbatim>\<open>!item.pull_request\<close>: the marker is missing or falsy.\<close>

definition not_pull_request :: "GitHubIssue \<Rightarrow> bool" where
  "not_pull_request item =
     (case pull_request item of None \<Rightarrow> True | Some v \<Rightarrow> \<not> truthy v)"

definition filterPullRequests :: "GitHubIssue list \<Rightarrow> GitHubIssue list" where
  "filterPullRequests data = filter not_pull_request data"

text \<open>
  The \<^verbatim>\<open>try\<close> block of lines 85-103, given the filtered issues: whatever throws inside
  (the fetch, reading the body) is caught and logged, a response that is not \<^verbatim>\<open>ok\<close>
  falls through, and both end at \<^verbatim>\<open>return issues\<close>.
\<close>

definition attachStatuses ::
  "automation_data fetched \<Rightarrow> GitHubIssue list \<Rightarrow> GitHubIssue list" where
  "attachStatuses outcome issues =
     (case outcome of
        Threw e \<Rightarrow> issues
      | Responded automationResponse \<Rightarrow>
          if ok automationResponse then
            (case json automationResponse of
               Inl e \<Rightarrow> issues
             | Inr automationData \<Rightarrow>
                 mergeAutomationStatus
                   (case automation_statuses automationData of
                      None \<Rightarrow> Map.empty | Some m \<Rightarrow> m)
                   issues)
          else issues)"

text \<open>
  The payload creator. \<open>github\<close> and \<open>backend\<close> are the two remote collaborators,
  from a request to what \<^verbatim>\<open>fetch\<close> does with it. The result is the list of requests
  sent, in order, and the thrown error (\<open>Inl\<close>) or the returned issues (\<open>Inr\<close>).
\<close>

definition fetchIssues ::
  "string option \<Rightarrow> (request \<Rightarrow> GitHubIssue list fetched) \<Rightarrow>
   (request \<Rightarrow> automation_data fetched) \<Rightarrow> fetch_args \<Rightarrow>
   request list \<times> (js_error + GitHubIssue list)" where
  "fetchIssues token github backend args =
     (let req = issues_request token args in
      case github req of
        Threw e \<Rightarrow> ([req], Inl e)
      | Responded response \<Rightarrow>
          if \<not> ok response then
            ([req], Inl (Error (''GitHub API error: '' @ toString (status_code response)
                                  @ '' '' @ statusText response)))
          else
            (case json response of
               Inl e \<Rightarrow> ([req], Inl e)
             | Inr data \<Rightarrow>
                 let issues = filterPullRequests data;
                     areq = automation_request args
                 in ([req, areq], Inr (attachStatuses (backend areq) issues))))"

section \<open>retryAutomation (lines 109-136)\<close>

record retry_args =
  retry_owner :: string
  retry_repo :: string
  issueNumber :: int

definition retry_request :: "retry_args \<Rightarrow> request" where
  "retry_request args =
     \<lparr>http_method = ''POST'',
      url = ''http://localhost:8000/automation-status/'' @ retry_owner args @ ''/''
              @ retry_repo args @ ''/'' @ toString (issueNumber args) @ ''/retry'',
      headers = [(''Content-Type'', ''application/json'')]\<rparr>"

text \<open>The payload \<^verbatim>\<open>{ issueNumber, status: "pending" }\<close> is the pair.\<close>

definition retryAutomation ::
  "(request \<Rightarrow> unit fetched) \<Rightarrow> retry_args \<Rightarrow> request list \<times> (js_error + int \<times> string)" where
  "retryAutomation backend args =
     (let req = retry_request args in
      case backend req of
        Threw e \<Rightarrow> ([req], Inl e)
      | Responded response \<Rightarrow>
          if \<not> ok response then
            ([req], Inl (Error (''Failed to retry automation: '' @ toString (status_code response))))
          else ([req], Inr (issueNumber args, ''pending'')))"

section \<open>The issues store (lines 5-29 and 138-190)\<close>

record IssuesState =
  issues :: "GitHubIssue list"
  loading :: bool
  error :: "string option"
  filters :: FilterCriteria

definition initialState :: IssuesState where
  "initialState =
     \<lparr>issues = [], loading = False, error = None,
      filters = \<lparr>state = StateAll, assignee = [], label = [],
                 sort_by = Created, direction = Desc\<rparr>\<rparr>"

text \<open>
  The actions of the slice: its four reducers and the life cycle of the two thunks.
  A rejected action carries \<^verbatim>\<open>action.error.message\<close>, which may be missing.
\<close>

datatype issues_action =
    SetFilters PartialFilters
  | ClearError
  | ClearIssues
  | UpdateIssueAutomationStatus int AutomationStatus
  | FetchIssuesPending
  | FetchIssuesFulfilled "GitHubIssue list"
  | FetchIssuesRejected "string option"
  | RetryAutomationPending
  | RetryAutomationFulfilled int string
  | RetryAutomationRejected "string option"

text \<open>
  \<^verbatim>\<open>state.issues.find(p)\<close> gives the first issue that satisfies \<open>p\<close>, or \<^verbatim>\<open>undefined\<close>;
  the reducer then assigns to that object inside the draft state. \<open>find_pos\<close> is the
  position of the object found.
\<close>

fun find_pos :: "('a \<Rightarrow> bool) \<Rightarrow> 'a list \<Rightarrow> nat option" where
  "find_pos p [] = None"
| "find_pos p (x # xs) = (if p x then Some 0 else map_option Suc (find_pos p xs))"

definition assign_status :: "int \<Rightarrow> AutomationStatus \<Rightarrow> IssuesState \<Rightarrow> IssuesState" where
  "assign_status n st s =
     (case find_pos (\<lambda>issue. number issue = n) (issues s) of
        None \<Rightarrow> s
      | Some i \<Rightarrow>
          s\<lparr>issues := (issues s)[i := (issues s ! i)\<lparr>automation_status := Val st\<rparr>]\<rparr>)"

text \<open>The object literal \<^verbatim>\<open>{ status: "pending" }\<close>: the other keys are missing.\<close>

definition pending_status :: AutomationStatus where
  "pending_status =
     \<lparr>status = Some Pending, started_at = None, completed_at = None,
      error_message = None, task_id = None\<rparr>"

text \<open>\<^verbatim>\<open>message || fallback\<close>: a missing or empty message gives the fallback.\<close>

definition message_or :: "string option \<Rightarrow> string \<Rightarrow> string" where
  "message_or m fallback =
     (case m of None \<Rightarrow> fallback | Some t \<Rightarrow> if t \<noteq> [] then t else fallback)"

text \<open>
  The slice has no case for the pending and rejected actions of \<^verbatim>\<open>retryAutomation\<close>:
  the state is returned as it is.
\<close>

fun issuesReducer :: "IssuesState \<Rightarrow> issues_action \<Rightarrow> IssuesState" where
  "issuesReducer s (SetFilters payload) = s\<lparr>filters := spread_filters (filters s) payload\<rparr>"
| "issuesReducer s ClearError = s\<lparr>error := None\<rparr>"
| "issuesReducer s ClearIssues = s\<lparr>issues := []\<rparr>"
| "issuesReducer s (UpdateIssueAutomationStatus n st) = assign_status n st s"
| "issuesReducer s FetchIssuesPending = s\<lparr>loading := True, error := None\<rparr>"
| "issuesReducer s (FetchIssuesFulfilled payload) =
     s\<lparr>loading := False, issues := payload, error := None\<rparr>"
| "issuesReducer s (FetchIssuesRejected m) =
     s\<lparr>loading := False, error := Some (message_or m ''Failed to fetch issues'')\<rparr>"
| "issuesReducer s (RetryAutomationFulfilled n st) = assign_status n pending_status s"
| "issuesReducer s RetryAutomationPending = s"
| "issuesReducer s (RetryAutomationRejected m) = s"

text \<open>
  Dispatching a thunk made by \<^verbatim>\<open>createAsyncThunk\<close>: the pending action, then the
  payload creator, then the fulfilled action with what it returned or the rejected action
  with the message of what it threw.
\<close>

definition dispatch_fetchIssues ::
  "string option \<Rightarrow> (request \<Rightarrow> GitHubIssue list fetched) \<Rightarrow>
   (request \<Rightarrow> automation_data fetched) \<Rightarrow> fetch_args \<Rightarrow> IssuesState \<Rightarrow> IssuesState" where
  "dispatch_fetchIssues token github backend args s =
     (let s1 = issuesReducer s FetchIssuesPending in
      case snd (fetchIssues token github backend args) of
        Inl e \<Rightarrow> issuesReducer s1 (FetchIssuesRejected (Some (message e)))
      | Inr payload \<Rightarrow> issuesReducer s1 (FetchIssuesFulfilled payload))"

definition dispatch_retryAutomation ::
  "(request \<Rightarrow> unit fetched) \<Rightarrow> retry_args \<Rightarrow> IssuesState \<Rightarrow> IssuesState" where
  "dispatch_retryAutomation backend args s =
     (let s1 = issuesReducer s RetryAutomationPending in
      case snd (retryAutomation backend args) of
        Inl e \<Rightarrow> issuesReducer s1 (RetryAutomationRejected (Some (message e)))
      | Inr payload \<Rightarrow> issuesReducer s1 (RetryAutomationFulfilled (fst payload) (snd payload)))"

section \<open>The repository store (client/src/store/slices/repositorySlice.ts)\<close>

record RepositoryAccess =
  has_access :: bool
  access_error :: "string option"
  access_message :: "string option"
  auth_url :: "string option"
  repository_info :: "(string \<times> js_value) list option"
  permissions :: "(string \<times> js_value) list option"

text \<open>
  \<^verbatim>\<open>Repository\<close>; the fields whose names the issue already has carry the prefix
  \<open>repo_\<close>.
\<close>

record Repository =
  repo_id :: string
  user_id :: string
  repo_name :: string
  full_name :: string
  description :: "string option"
  repo_url :: string
  repo_created_at :: string
  repo_updated_at :: string
  github_access :: "RepositoryAccess option"

record RepositoryState =
  repositories :: "Repository list"
  selectedRepository :: "Repository option"
  repo_loading :: bool
  repo_error :: "string option"

text \<open>The body \<^verbatim>\<open>repoData\<close> of the create request.\<close>

record repo_data =
  data_name :: string
  data_full_name :: string
  data_description :: "string option"
  data_url :: string

text \<open>\<^verbatim>\<open>response.data\<close> of the create endpoint.\<close>

record add_reply =
  success :: bool
  reply_repository :: Repository
  reply_message :: "string option"

text \<open>
  \<^verbatim>\<open>api.post\<close> (axios) either rejects, on a transport failure or a status outside 2xx,
  or resolves with the data.
\<close>

datatype post_outcome = PostRejected js_error | PostResolved add_reply

text \<open>A call of the create endpoint: the URL and the body.\<close>

type_synonym post_call = "string \<times> repo_data"

definition addRepository ::
  "(post_call \<Rightarrow> post_outcome) \<Rightarrow> string \<Rightarrow> repo_data \<Rightarrow>
   post_call list \<times> (js_error + Repository)" where
  "addRepository post userId repoData =
     (let call = (''/repositories?user_id='' @ userId, repoData) in
      case post call of
        PostRejected e \<Rightarrow> ([call], Inl e)
      | PostResolved d \<Rightarrow>
          if success d then ([call], Inr (reply_repository d))
          else ([call], Inl (Error (message_or (reply_message d) ''Failed to add repository''))))"

datatype repository_action =
    AddRepositoryPending
  | AddRepositoryFulfilled Repository
  | AddRepositoryRejected "string option"

text \<open>The three cases of \<^verbatim>\<open>addRepository\<close> in \<^verbatim>\<open>extraReducers\<close>; \<^verbatim>\<open>unshift\<close> puts in front.\<close>

fun repositoryReducer :: "RepositoryState \<Rightarrow> repository_action \<Rightarrow> RepositoryState" where
  "repositoryReducer s AddRepositoryPending = s\<lparr>repo_loading := True, repo_error := None\<rparr>"
| "repositoryReducer s (AddRepositoryFulfilled r) =
     s\<lparr>repo_loading := False, repositories := r # repositories s, repo_error := None\<rparr>"
| "repositoryReducer s (AddRepositoryRejected m) =
     s\<lparr>repo_loading := False, repo_error := Some (message_or m ''Failed to add repository'')\<rparr>"

section \<open>validateAndAddRepository (DashboardPage, lines 89-138)\<close>

text \<open>The repository picked in the browser dialog.\<close>

record browser_repo =
  picked_id :: int
  picked_name :: string
  picked_full_name :: string
  picked_description :: "string option"
  picked_html_url :: string

datatype toast = ToastError string | ToastSuccess string

text \<open>
  What the handler reads and writes: the repository store, the signed-in user's id
  (\<^verbatim>\<open>user\<close> of the auth store, \<open>None\<close> for \<^verbatim>\<open>null\<close>), the component's state, and, as
  a log of its effects, the toasts shown and the calls made to the create endpoint.
\<close>

record dashboard =
  store :: RepositoryState
  auth_user :: "string option"
  selectedRepoFromBrowser :: "browser_repo option"
  isAddDialogOpen :: bool
  isValidating :: bool
  toasts :: "toast list"
  posts :: "post_call list"

text \<open>\<^verbatim>\<open>description || undefined\<close>: \<^verbatim>\<open>null\<close> and the empty string become \<^verbatim>\<open>undefined\<close>.\<close>

definition or_undefined :: "string option \<Rightarrow> string option" where
  "or_undefined d = (case d of None \<Rightarrow> None | Some t \<Rightarrow> if t \<noteq> [] then Some t else None)"

text \<open>
  The handler. \<^verbatim>\<open>unwrap()\<close> of a rejected thunk throws the serialised error, a plain
  object and not an \<^verbatim>\<open>Error\<close>, so the \<^verbatim>\<open>catch\<close> block shows its fixed text. The
  \<^verbatim>\<open>finally\<close> block ends every path that entered \<^verbatim>\<open>try\<close> with \<^verbatim>\<open>isValidating\<close> false.
\<close>

definition validateAndAddRepository ::
  "(post_call \<Rightarrow> post_outcome) \<Rightarrow> dashboard \<Rightarrow> dashboard" where
  "validateAndAddRepository post d =
     (case selectedRepoFromBrowser d of
        None \<Rightarrow> d\<lparr>toasts := toasts d @ [ToastError ''Please select a repository'']\<rparr>
      | Some picked \<Rightarrow>
          (case auth_user d of
             None \<Rightarrow> d\<lparr>toasts := toasts d @ [ToastError ''User not authenticated'']\<rparr>
           | Some uid \<Rightarrow>
               (case find (\<lambda>r. full_name r = picked_full_name picked) (repositories (store d)) of
                  Some existingRepo \<Rightarrow>
                    d\<lparr>toasts := toasts d @ [ToastError ''This repository is already added''],
                      isValidating := False\<rparr>
                | None \<Rightarrow>
                    let repoData =
                          \<lparr>data_name = picked_name picked,
                           data_full_name = picked_full_name picked,
                           data_description = or_undefined (picked_description picked),
                           data_url = picked_html_url picked\<rparr>;
                        s1 = repositoryReducer (store d) AddRepositoryPending;
                        sent = addRepository post uid repoData
                    in (case snd sent of
                          Inr r \<Rightarrow>
                            d\<lparr>store := repositoryReducer s1 (AddRepositoryFulfilled r),
                              posts := posts d @ fst sent,
                              toasts := toasts d @ [ToastSuccess ''Repository added successfully!''],
                              selectedRepoFromBrowser := None,
                              isAddDialogOpen := False,
                              isValidating := False\<rparr>
                        | Inl e \<Rightarrow>
                            d\<lparr>store := repositoryReducer s1 (AddRepositoryRejected (Some (message e))),
                              posts := posts d @ fst sent,
                              toasts := toasts d @ [ToastError ''Failed to add repository''],
                              isValidating := False\<rparr>))))"

section \<open>The shape of the remote data\<close>

text \<open>
  The marker as the remote issue source sends it: GitHub gives a pull request the key
  \<^verbatim>\<open>pull_request\<close> with an object of URLs and gives a plain issue no such key.
\<close>

definition is_object :: "js_value \<Rightarrow> bool" where
  "is_object v = (case v of JObj kvs \<Rightarrow> True | _ \<Rightarrow> False)"

definition markers_are_objects :: "GitHubIssue list \<Rightarrow> bool" where
  "markers_are_objects data =
     list_all (\<lambda>item. case pull_request item of None \<Rightarrow> True | Some v \<Rightarrow> is_object v) data"

text \<open>An issue with its automation status left out, to compare all the other fields.\<close>

definition without_status :: "GitHubIssue \<Rightarrow> GitHubIssue" where
  "without_status x = x\<lparr>automation_status := Absent\<rparr>"

section \<open>Example data\<close>

definition octocat :: github_user where
  "octocat = \<lparr>login = ''octocat'', avatar_url = ''https://avatars.example/octocat''\<rparr>"

definition mk_issue :: "int \<Rightarrow> js_value option \<Rightarrow> GitHubIssue" where
  "mk_issue n pr =
     \<lparr>issue_id = 1000 + n, number = n, title = ''Issue'', body = None,
      issue_state = IssueOpen, created_at = ''2024-01-01T00:00:00Z'',
      updated_at = ''2024-01-02T00:00:00Z'', html_url = ''https://github.com/o/r/issues'',
      user = octocat, labels = [], assignees = [],
      automation_status = Absent, pull_request = pr\<rparr>"

definition running_status :: AutomationStatus where
  "running_status =
     \<lparr>status = Some Running, started_at = Some ''2024-01-03T00:00:00Z'',
      completed_at = None, error_message = None, task_id = Some ''t-7''\<rparr>"

definition example_statuses :: status_map where
  "example_statuses = [''42'' \<mapsto> running_status]"

definition example_issues :: "GitHubIssue list" where
  "example_issues = [mk_issue 42 None, mk_issue 7 None]"

definition open_only :: PartialFilters where
  "open_only = \<lparr>p_state = Some StateOpen, p_assignee = None, p_label = None,
                 p_sort = None, p_direction = None\<rparr>"

definition open_created_desc :: FilterCriteria where
  "open_created_desc = \<lparr>state = StateOpen, assignee = [], label = [],
                         sort_by = Created, direction = Desc\<rparr>"

definition pr_marker :: js_value where
  "pr_marker = JObj [(''url'', ''https://api.github.com/repos/o/r/pulls/2'')]"

definition mixed_data :: "GitHubIssue list" where
  "mixed_data = [mk_issue 1 None, mk_issue 2 (Some pr_marker), mk_issue 3 None]"

definition demo_args :: fetch_args where
  "demo_args = \<lparr>owner = ''octo'', repo = ''demo'', filters_arg = Some (all_fields open_created_desc)\<rparr>"

definition github_ok :: "request \<Rightarrow> GitHubIssue list fetched" where
  "github_ok req = Responded \<lparr>status_code = 200, statusText = ''OK'', json = Inr mixed_data\<rparr>"

definition github_forbidden :: "request \<Rightarrow> GitHubIssue list fetched" where
  "github_forbidden req =
     Responded \<lparr>status_code = 403, statusText = ''Forbidden'', json = Inr []\<rparr>"

definition backend_down :: "request \<Rightarrow> automation_data fetched" where
  "backend_down req = Threw (Error ''Failed to fetch'')"

definition backend_500 :: "request \<Rightarrow> automation_data fetched" where
  "backend_500 req =
     Responded \<lparr>status_code = 500, statusText = ''Internal Server Error'',
                json = Inl (Error ''Unexpected token'')\<rparr>"

definition stale_state :: IssuesState where
  "stale_state = initialState\<lparr>issues := example_issues\<rparr>"

definition retry_42 :: retry_args where
  "retry_42 = \<lparr>retry_owner = ''octo'', retry_repo = ''demo'', issueNumber = 42\<rparr>"

definition retry_accepted :: "request \<Rightarrow> unit fetched" where
  "retry_accepted req = Responded \<lparr>status_code = 200, statusText = ''OK'', json = Inr ()\<rparr>"

definition retry_failed :: "request \<Rightarrow> unit fetched" where
  "retry_failed req =
     Responded \<lparr>status_code = 500, statusText = ''Internal Server Error'', json = Inr ()\<rparr>"


definition demo_repository :: Repository where
  "demo_repository =
     \<lparr>repo_id = ''r-1'', user_id = ''u-1'', repo_name = ''demo'', full_name = ''octo/demo'',
      description = None, repo_url = ''https://github.com/octo/demo'',
      repo_created_at = ''2024-01-01T00:00:00Z'', repo_updated_at = ''2024-01-01T00:00:00Z'',
      github_access = None\<rparr>"

definition picked_demo :: browser_repo where
  "picked_demo =
     \<lparr>picked_id = 77, picked_name = ''demo'', picked_full_name = ''octo/demo'',
      picked_description = None, picked_html_url = ''https://github.com/octo/demo''\<rparr>"

definition signed_in_page :: dashboard where
  "signed_in_page =
     \<lparr>store = \<lparr>repositories = [demo_repository], selectedRepository = None,
               repo_loading = False, repo_error = None\<rparr>,
      auth_user = Some ''u-1'', selectedRepoFromBrowser = Some picked_demo,
      isAddDialogOpen = True, isValidating = False, toasts = [], posts = []\<rparr>"

definition post_accepts :: "post_call \<Rightarrow> post_outcome" where
  "post_accepts call =
     PostResolved \<lparr>success = True, reply_repository = demo_repository, reply_message = None\<rparr>"

section \<open>Auxiliary lemmas\<close>

lemma toString_42: "toString 42 = ''42''"
  by (simp add: toString_def nat_digits.simps digit_char_def)

lemma toString_7: "toString 7 = ''7''"
  by (simp add: toString_def nat_digits.simps digit_char_def)

lemma length_mergeAutomationStatus:
  "length (mergeAutomationStatus m xs) = length xs"
  by (simp add: mergeAutomationStatus_def)

lemma nth_mergeAutomationStatus:
  "i < length xs \<Longrightarrow> mergeAutomationStatus m xs ! i = mergeIssue m (xs ! i)"
  by (simp add: mergeAutomationStatus_def)

lemma mergeIssue_frame:
  "mergeIssue m x = x\<lparr>automation_status := automation_status (mergeIssue m x)\<rparr>"
  by (simp add: mergeIssue_def)

lemma mergeIssue_idem: "mergeIssue m (mergeIssue m x) = mergeIssue m x"
  by (simp add: mergeIssue_def)

lemma build_params_all_fields:
  "build_params (Some (all_fields f)) =
     (if state f \<noteq> StateAll then [(''state'', state_str (state f))] else [])
     @ (if assignee f \<noteq> [] then [(''assignee'', assignee f)] else [])
     @ (if label f \<noteq> [] then [(''labels'', label f)] else [])
     @ [(''sort'', sort_str (sort_by f)), (''direction'', direction_str (direction f)),
        (''per_page'', ''100'')]"
  by (simp add: build_params_def optional_chain_def all_fields_def)

lemma is_object_truthy: "is_object v \<Longrightarrow> truthy v"
  by (cases v) (simp_all add: is_object_def)

lemma not_pull_request_object:
  "(case pull_request x of None \<Rightarrow> True | Some v \<Rightarrow> is_object v) \<Longrightarrow>
   not_pull_request x \<longleftrightarrow> pull_request x = None"
  by (auto simp: not_pull_request_def is_object_truthy split: option.splits)

lemma filter_cong_set: "(\<And>x. x \<in> set xs \<Longrightarrow> p x = q x) \<Longrightarrow> filter p xs = filter q xs"
  by (rule filter_cong) simp_all

lemma attachStatuses_failed:
  "outcome = Threw e \<or> (\<exists>ar. outcome = Responded ar \<and> \<not> ok ar) \<Longrightarrow>
   attachStatuses outcome xs = xs"
  by (auto simp: attachStatuses_def)

lemma fetchIssues_primary_ok:
  "github (issues_request token args) = Responded r \<Longrightarrow> ok r \<Longrightarrow> json r = Inr data \<Longrightarrow>
   fetchIssues token github backend args =
     ([issues_request token args, automation_request args],
      Inr (attachStatuses (backend (automation_request args)) (filterPullRequests data)))"
  by (simp add: fetchIssues_def Let_def)

lemma fetchIssues_primary_not_ok:
  "github (issues_request token args) = Responded r \<Longrightarrow> \<not> ok r \<Longrightarrow>
   fetchIssues token github backend args =
     ([issues_request token args],
      Inl (Error (''GitHub API error: '' @ toString (status_code r) @ '' '' @ statusText r)))"
  by (simp add: fetchIssues_def Let_def)

lemma mergeIssue_without_status: "without_status (mergeIssue m x) = without_status x"
  by (simp add: without_status_def mergeIssue_def)

lemma mergeIssue_pull_request: "pull_request (mergeIssue m x) = pull_request x"
  by (simp add: mergeIssue_def)

lemma attachStatuses_without_status:
  "map without_status (attachStatuses outcome xs) = map without_status xs"
  by (simp add: attachStatuses_def mergeAutomationStatus_def mergeIssue_without_status
      split: fetched.split sum.split)

lemma attachStatuses_pull_request:
  "map pull_request (attachStatuses outcome xs) = map pull_request xs"
  by (simp add: attachStatuses_def mergeAutomationStatus_def mergeIssue_pull_request
      split: fetched.split sum.split)

lemma toString_403: "toString 403 = ''403''"
  by (simp add: toString_def nat_digits.simps digit_char_def)

lemma find_pos_None: "find_pos p xs = None \<longleftrightarrow> (\<forall>x \<in> set xs. \<not> p x)"
  by (induction xs) auto

lemma find_pos_Some:
  "find_pos p xs = Some i \<Longrightarrow> i < length xs \<and> p (xs ! i) \<and> (\<forall>j<i. \<not> p (xs ! j))"
proof (induction xs arbitrary: i)
  case Nil
  then show ?case by simp
next
  case (Cons x xs)
  show ?case
  proof (cases "p x")
    case True
    with Cons.prems show ?thesis by simp
  next
    case False
    with Cons.prems obtain k where k: "find_pos p xs = Some k" "i = Suc k"
      by auto
    from Cons.IH [OF k(1)] False k(2) show ?thesis
      by (auto simp: nth_Cons split: nat.splits)
  qed
qed

lemma find_pos_first:
  "i < length xs \<Longrightarrow> p (xs ! i) \<Longrightarrow> \<forall>j<i. \<not> p (xs ! j) \<Longrightarrow> find_pos p xs = Some i"
proof -
  assume a: "i < length xs" "p (xs ! i)" "\<forall>j<i. \<not> p (xs ! j)"
  then have "find_pos p xs \<noteq> None"
    by (auto simp: find_pos_None)
  then obtain k where k: "find_pos p xs = Some k"
    by auto
  from find_pos_Some [OF k] a have "\<not> k < i" "\<not> i < k"
    by auto
  with k show ?thesis by simp
qed

lemma assign_status_frame:
  "filters (assign_status n v s) = filters s \<and>
   loading (assign_status n v s) = loading s \<and>
   error (assign_status n v s) = error s \<and>
   length (issues (assign_status n v s)) = length (issues s)"
  by (simp add: assign_status_def split: option.split)

lemma assign_status_absent:
  "\<forall>x \<in> set (issues s). number x \<noteq> n \<Longrightarrow> assign_status n v s = s"
  using find_pos_None [of "\<lambda>issue. number issue = n" "issues s"]
  by (simp add: assign_status_def)

lemma assign_status_changed:
  assumes "i < length (issues s)" "issues (assign_status n v s) ! i \<noteq> issues s ! i"
  shows "number (issues s ! i) = n \<and> (\<forall>j<i. number (issues s ! j) \<noteq> n) \<and>
         issues (assign_status n v s) ! i = (issues s ! i)\<lparr>automation_status := Val v\<rparr>"
proof (cases "find_pos (\<lambda>issue. number issue = n) (issues s)")
  case None
  with assms show ?thesis by (simp add: assign_status_def)
next
  case (Some k)
  have "i = k"
  proof (rule ccontr)
    assume "i \<noteq> k"
    then have "(issues s)[k := (issues s ! k)\<lparr>automation_status := Val v\<rparr>] ! i = issues s ! i"
      by simp
    with assms(2) Some show False
      by (simp add: assign_status_def)
  qed
  with find_pos_Some [OF Some] Some show ?thesis
    by (simp add: assign_status_def)
qed

lemma assign_status_first:
  assumes "i < length (issues s)" "number (issues s ! i) = n" "\<forall>j<i. number (issues s ! j) \<noteq> n"
  shows "issues (assign_status n v s) ! i = (issues s ! i)\<lparr>automation_status := Val v\<rparr>"
proof -
  from assms have "find_pos (\<lambda>issue. number issue = n) (issues s) = Some i"
    by (intro find_pos_first) auto
  with assms(1) show ?thesis
    by (simp add: assign_status_def)
qed

lemma no_issue_99: "\<forall>x \<in> set (issues stale_state). number x \<noteq> 99"
  by (simp add: stale_state_def example_issues_def mk_issue_def)

lemma toString_500: "toString 500 = ''500''"
  by (simp add: toString_def nat_digits.simps digit_char_def)

lemma retryAutomation_requests: "fst (retryAutomation backend args) = [retry_request args]"
  by (simp add: retryAutomation_def Let_def split: fetched.split)

lemma find_duplicate:
  "\<exists>r \<in> set rs. full_name r = n \<Longrightarrow> \<exists>existing. find (\<lambda>r. full_name r = n) rs = Some existing"
  by (cases "find (\<lambda>r. full_name r = n) rs") (auto simp: find_None_iff)

section \<open>C1: what the merge attaches\<close>

text \<open>
  C1. For every issue list and every mapping from issue numbers, as strings, to automation
  statuses, the merge step of \<^verbatim>\<open>fetchIssues\<close> keeps the length and the order of the
  list; at every position the issue whose number, as a string, is a key of the mapping
  has the mapped value as its \<open>automation_status\<close>, every other issue has \<^verbatim>\<open>null\<close>
  there, and the issue differs from the one given in no other field.
\<close>

theorem merge_attaches_status_by_number:
  "length (mergeAutomationStatus m xs) = length xs \<and>
   (\<forall>i < length xs.
      (toString (number (xs ! i)) \<in> dom m \<longrightarrow>
         automation_status (mergeAutomationStatus m xs ! i)
           = Val (the (m (toString (number (xs ! i)))))) \<and>
      (toString (number (xs ! i)) \<notin> dom m \<longrightarrow>
         automation_status (mergeAutomationStatus m xs ! i) = Null) \<and>
      mergeAutomationStatus m xs ! i
        = (xs ! i)\<lparr>automation_status := automation_status (mergeAutomationStatus m xs ! i)\<rparr>)"
proof -
  have "automation_status (mergeIssue m x) = Val (the (m (toString (number x))))"
    if "toString (number x) \<in> dom m" for x
    using that by (auto simp: mergeIssue_def or_null_def)
  moreover have "automation_status (mergeIssue m x) = Null"
    if "toString (number x) \<notin> dom m" for x
    using that by (auto simp: mergeIssue_def or_null_def dom_def)
  ultimately show ?thesis
    using mergeIssue_frame [of m]
    by (simp add: length_mergeAutomationStatus nth_mergeAutomationStatus)
qed

theorem merge_attaches_status_by_number_witness:
  "length (mergeAutomationStatus example_statuses example_issues) = 2 \<and>
   toString (number (example_issues ! 0)) \<in> dom example_statuses \<and>
   automation_status (mergeAutomationStatus example_statuses example_issues ! 0)
     = Val running_status \<and>
   toString (number (example_issues ! Suc 0)) \<notin> dom example_statuses \<and>
   automation_status (mergeAutomationStatus example_statuses example_issues ! Suc 0) = Null \<and>
   title (mergeAutomationStatus example_statuses example_issues ! Suc 0) = ''Issue''"
proof -
  let ?r = "mergeAutomationStatus example_statuses example_issues"
  have k0: "toString (number (example_issues ! 0)) = ''42''"
    by (simp add: example_issues_def mk_issue_def toString_42)
  have k1: "toString (number (example_issues ! Suc 0)) = ''7''"
    by (simp add: example_issues_def mk_issue_def toString_7)
  have d0: "''42'' \<in> dom example_statuses" and d1: "''7'' \<notin> dom example_statuses"
    by (simp_all add: example_statuses_def)
  have v0: "the (example_statuses ''42'') = running_status"
    by (simp add: example_statuses_def)
  have len: "length example_issues = 2"
    by (simp add: example_issues_def)
  note t = merge_attaches_status_by_number [of example_statuses example_issues]
  from t have l: "length ?r = 2"
    by (simp add: len)
  from t have "automation_status (?r ! 0) = Val (the (example_statuses ''42''))"
    using d0 by (simp add: len k0)
  then have a0: "automation_status (?r ! 0) = Val running_status"
    by (simp add: v0)
  from t have q: "\<forall>i<2. (toString (number (example_issues ! i)) \<notin> dom example_statuses \<longrightarrow>
         automation_status (?r ! i) = Null) \<and>
         ?r ! i = (example_issues ! i)\<lparr>automation_status := automation_status (?r ! i)\<rparr>"
    by (simp add: len)
  have "Suc 0 < 2" by simp
  with q have q1: "(toString (number (example_issues ! Suc 0)) \<notin> dom example_statuses \<longrightarrow>
         automation_status (?r ! Suc 0) = Null) \<and>
         ?r ! Suc 0 = (example_issues ! Suc 0)\<lparr>automation_status := automation_status (?r ! Suc 0)\<rparr>"
    by blast
  then have a1: "automation_status (?r ! Suc 0) = Null"
    using d1 by (simp add: k1)
  from q1 have "title (?r ! Suc 0) = title ((example_issues ! Suc 0)\<lparr>automation_status := automation_status (?r ! Suc 0)\<rparr>)"
    by simp
  then have t1: "title (?r ! Suc 0) = ''Issue''"
    by (simp add: example_issues_def mk_issue_def)
  show ?thesis
    using l a0 a1 t1 d0 d1 by (simp add: k0 k1)
qed

section \<open>C2: the query of fetchIssues\<close>

text \<open>
  C2. For every owner, repository name and fully populated filter criteria, the query has
  a \<open>state\<close> parameter exactly when the state is not \<open>all\<close>, an \<open>assignee\<close>
  parameter exactly when the assignee is not empty, a single \<open>labels\<close> parameter exactly
  when the label is not empty, and always \<open>sort\<close>, \<open>direction\<close> and \<open>per_page=100\<close>;
  the request's URL is the repository's issues endpoint followed by the serialised
  parameters. For state \<open>open\<close>, sort \<open>created\<close>, direction \<open>desc\<close> and empty
  assignee and label the query string is
  \<^verbatim>\<open>state=open&sort=created&direction=desc&per_page=100\<close>, without \<open>assignee\<close> and
  \<open>labels\<close>.
\<close>

theorem query_parameters:
  "(''state'' \<in> fst ` set (build_params (Some (all_fields f))) \<longleftrightarrow> state f \<noteq> StateAll) \<and>
   (''assignee'' \<in> fst ` set (build_params (Some (all_fields f))) \<longleftrightarrow> assignee f \<noteq> []) \<and>
   (''labels'' \<in> fst ` set (build_params (Some (all_fields f))) \<longleftrightarrow> label f \<noteq> []) \<and>
   getAll (build_params (Some (all_fields f))) ''state''
     = (if state f \<noteq> StateAll then [state_str (state f)] else []) \<and>
   getAll (build_params (Some (all_fields f))) ''assignee''
     = (if assignee f \<noteq> [] then [assignee f] else []) \<and>
   getAll (build_params (Some (all_fields f))) ''labels''
     = (if label f \<noteq> [] then [label f] else []) \<and>
   getAll (build_params (Some (all_fields f))) ''sort'' = [sort_str (sort_by f)] \<and>
   getAll (build_params (Some (all_fields f))) ''direction'' = [direction_str (direction f)] \<and>
   getAll (build_params (Some (all_fields f))) ''per_page'' = [''100''] \<and>
   url (issues_request token \<lparr>owner = ow, repo = rp, filters_arg = Some (all_fields f)\<rparr>)
     = ''https://api.github.com/repos/'' @ ow @ ''/'' @ rp @ ''/issues?''
         @ params_toString (build_params (Some (all_fields f))) \<and>
   (state f = StateOpen \<and> sort_by f = Created \<and> direction f = Desc \<and>
    assignee f = [] \<and> label f = [] \<longrightarrow>
      params_toString (build_params (Some (all_fields f)))
        = ''state=open&sort=created&direction=desc&per_page=100'' \<and>
      ''assignee'' \<notin> fst ` set (build_params (Some (all_fields f))) \<and>
      ''labels'' \<notin> fst ` set (build_params (Some (all_fields f))))"
proof -
  let ?ps = "build_params (Some (all_fields f))"
  note bp = build_params_all_fields [of f]
  have m1: "''state'' \<in> fst ` set ?ps \<longleftrightarrow> state f \<noteq> StateAll"
    unfolding bp by (auto simp: image_iff)
  have m2: "''assignee'' \<in> fst ` set ?ps \<longleftrightarrow> assignee f \<noteq> []"
    unfolding bp by (auto simp: image_iff)
  have m3: "''labels'' \<in> fst ` set ?ps \<longleftrightarrow> label f \<noteq> []"
    unfolding bp by (auto simp: image_iff)
  have g1: "getAll ?ps ''state'' = (if state f \<noteq> StateAll then [state_str (state f)] else [])"
    unfolding bp by (simp add: getAll_def)
  have g2: "getAll ?ps ''assignee'' = (if assignee f \<noteq> [] then [assignee f] else [])"
    unfolding bp by (simp add: getAll_def)
  have g3: "getAll ?ps ''labels'' = (if label f \<noteq> [] then [label f] else [])"
    unfolding bp by (simp add: getAll_def)
  have g4: "getAll ?ps ''sort'' = [sort_str (sort_by f)]"
    unfolding bp by (simp add: getAll_def)
  have g5: "getAll ?ps ''direction'' = [direction_str (direction f)]"
    unfolding bp by (simp add: getAll_def)
  have g6: "getAll ?ps ''per_page'' = [''100'']"
    unfolding bp by (simp add: getAll_def)
  have u: "url (issues_request token \<lparr>owner = ow, repo = rp, filters_arg = Some (all_fields f)\<rparr>)
     = ''https://api.github.com/repos/'' @ ow @ ''/'' @ rp @ ''/issues?'' @ params_toString ?ps"
    by (simp add: issues_request_def issues_url_def)
  have sc: "params_toString ?ps = ''state=open&sort=created&direction=desc&per_page=100''"
    if "state f = StateOpen" "sort_by f = Created" "direction f = Desc"
       "assignee f = []" "label f = []"
    unfolding bp using that
    by (simp add: params_toString_def form_encode_def form_encode_char_def form_plain_def)
  from m1 m2 m3 g1 g2 g3 g4 g5 g6 u sc show ?thesis
    by blast
qed

theorem query_parameters_witness:
  "state open_created_desc = StateOpen \<and> sort_by open_created_desc = Created \<and>
   direction open_created_desc = Desc \<and> assignee open_created_desc = [] \<and>
   label open_created_desc = [] \<and>
   params_toString (build_params (Some (all_fields open_created_desc)))
     = ''state=open&sort=created&direction=desc&per_page=100'' \<and>
   getAll (build_params (Some (all_fields open_created_desc))) ''state'' = [''open''] \<and>
   getAll (build_params (Some (all_fields open_created_desc))) ''assignee'' = [] \<and>
   getAll (build_params (Some (all_fields open_created_desc))) ''labels'' = [] \<and>
   url (issues_request None
         \<lparr>owner = ''octo'', repo = ''demo'', filters_arg = Some (all_fields open_created_desc)\<rparr>)
     = ''https://api.github.com/repos/octo/demo/issues?state=open&sort=created&direction=desc&per_page=100''"
  using query_parameters [where f = open_created_desc and token = None and ow = "''octo''"
      and rp = "''demo''"]
  by (simp add: open_created_desc_def)

section \<open>C3: pull requests are filtered out\<close>

text \<open>
  C3. The filter of \<^verbatim>\<open>fetchIssues\<close> keeps an item exactly when its \<^verbatim>\<open>pull_request\<close>
  field is missing or falsy: what it returns is a subsequence of the array, in the
  array's order, and no kept item has a truthy marker. For every array as the
  remote issue source returns it, where the marker of a pull request is an object and a
  plain issue has none, the filtered list is the subsequence, in order, of the items
  without the marker field and holds no marked item; and when the issue fetch succeeds
  with that array, the list \<^verbatim>\<open>fetchIssues\<close> returns holds no marked item and is that
  subsequence in every field but the automation status.
\<close>

theorem pull_requests_filtered_out:
  "subseq (filterPullRequests data) data \<and>
   (\<forall>x \<in> set (filterPullRequests data).
      case pull_request x of None \<Rightarrow> True | Some v \<Rightarrow> \<not> truthy v) \<and>
   (markers_are_objects data \<longrightarrow>
      filterPullRequests data = filter (\<lambda>x. pull_request x = None) data \<and>
      (\<forall>x \<in> set (filterPullRequests data). pull_request x = None) \<and>
      (github (issues_request token args) = Responded r \<and> ok r \<and> json r = Inr data \<longrightarrow>
         (\<exists>xs. snd (fetchIssues token github backend args) = Inr xs \<and>
               (\<forall>x \<in> set xs. pull_request x = None) \<and>
               map without_status xs
                 = map without_status (filter (\<lambda>x. pull_request x = None) data))))"
proof -
  have a: "\<forall>x \<in> set (filterPullRequests data).
      case pull_request x of None \<Rightarrow> True | Some v \<Rightarrow> \<not> truthy v"
    by (simp add: filterPullRequests_def not_pull_request_def)
  have b: "filterPullRequests data = filter (\<lambda>x. pull_request x = None) data"
    if "markers_are_objects data"
    unfolding filterPullRequests_def
  proof (rule filter_cong_set)
    fix x assume "x \<in> set data"
    with that have "case pull_request x of None \<Rightarrow> True | Some v \<Rightarrow> is_object v"
      by (simp add: markers_are_objects_def list_all_iff)
    then show "not_pull_request x = (pull_request x = None)"
      by (rule not_pull_request_object)
  qed
  have c: "\<exists>xs. snd (fetchIssues token github backend args) = Inr xs \<and>
               (\<forall>x \<in> set xs. pull_request x = None) \<and>
               map without_status xs
                 = map without_status (filter (\<lambda>x. pull_request x = None) data)"
    if m: "markers_are_objects data"
      and g: "github (issues_request token args) = Responded r" "ok r" "json r = Inr data"
  proof -
    let ?xs = "attachStatuses (backend (automation_request args)) (filterPullRequests data)"
    from g fetchIssues_primary_ok [where github = github and backend = backend and token = token
        and args = args and r = r and data = data]
    have f: "snd (fetchIssues token github backend args) = Inr ?xs"
      by simp
    have "set (map pull_request ?xs) = set (map pull_request (filterPullRequests data))"
      by (simp only: attachStatuses_pull_request)
    also have "\<dots> \<subseteq> {None}"
      using b [OF m] by auto
    finally have p: "\<forall>x \<in> set ?xs. pull_request x = None"
      by auto
    have w: "map without_status ?xs
        = map without_status (filter (\<lambda>x. pull_request x = None) data)"
      by (simp add: attachStatuses_without_status b [OF m])
    from f p w show ?thesis by blast
  qed
  have d: "\<forall>x \<in> set (filterPullRequests data). pull_request x = None"
    if m: "markers_are_objects data"
    by (simp add: b [OF m])
  show ?thesis
  proof (intro conjI impI)
    show "subseq (filterPullRequests data) data"
      by (simp add: filterPullRequests_def)
  next
    show "\<forall>x \<in> set (filterPullRequests data).
      case pull_request x of None \<Rightarrow> True | Some v \<Rightarrow> \<not> truthy v"
      by (rule a)
  next
    assume "markers_are_objects data"
    then show "filterPullRequests data = filter (\<lambda>x. pull_request x = None) data"
      by (rule b)
  next
    assume "markers_are_objects data"
    then show "\<forall>x \<in> set (filterPullRequests data). pull_request x = None"
      by (rule d)
  next
    assume "markers_are_objects data"
      and "github (issues_request token args) = Responded r \<and> ok r \<and> json r = Inr data"
    then show "\<exists>xs. snd (fetchIssues token github backend args) = Inr xs \<and>
               (\<forall>x \<in> set xs. pull_request x = None) \<and>
               map without_status xs
                 = map without_status (filter (\<lambda>x. pull_request x = None) data)"
      using c by simp
  qed
qed

theorem pull_requests_filtered_out_witness:
  "markers_are_objects mixed_data \<and>
   filterPullRequests mixed_data = [mk_issue 1 None, mk_issue 3 None]"
proof -
  have m: "markers_are_objects mixed_data"
    by (simp add: markers_are_objects_def mixed_data_def mk_issue_def pr_marker_def is_object_def)
  with pull_requests_filtered_out [where data = mixed_data]
  have "filterPullRequests mixed_data = filter (\<lambda>x. pull_request x = None) mixed_data"
    by blast
  then have "filterPullRequests mixed_data = [mk_issue 1 None, mk_issue 3 None]"
    by (simp add: mixed_data_def mk_issue_def)
  with m show ?thesis by simp
qed

section \<open>C4: a failed status fetch is swallowed\<close>

text \<open>
  C4. When the issue fetch succeeds and the automation-status fetch fails, by throwing or
  with a response outside 2xx, \<^verbatim>\<open>fetchIssues\<close> still returns: its payload is the
  filtered issue list, each issue as the remote source gave it (so with no automation
  status when the source sent none), and the store ends not loading, with that list and
  no error.
\<close>

theorem status_fetch_failure_is_swallowed:
  "github (issues_request token args) = Responded r \<and> ok r \<and> json r = Inr data \<and>
   (backend (automation_request args) = Threw e \<or>
    backend (automation_request args) = Responded ar \<and> \<not> ok ar) \<longrightarrow>
   fetchIssues token github backend args =
     ([issues_request token args, automation_request args], Inr (filterPullRequests data)) \<and>
   dispatch_fetchIssues token github backend args s =
     s\<lparr>loading := False, issues := filterPullRequests data, error := None\<rparr> \<and>
   set (filterPullRequests data) \<subseteq> set data \<and>
   ((\<forall>x \<in> set data. automation_status x = Absent) \<longrightarrow>
    (\<forall>x \<in> set (filterPullRequests data). automation_status x = Absent))"
proof (intro impI, elim conjE)
  assume g: "github (issues_request token args) = Responded r" "ok r" "json r = Inr data"
    and b: "backend (automation_request args) = Threw e \<or>
            backend (automation_request args) = Responded ar \<and> \<not> ok ar"
  from b have "attachStatuses (backend (automation_request args)) (filterPullRequests data)
      = filterPullRequests data"
    by (intro attachStatuses_failed) auto
  with g fetchIssues_primary_ok [where github = github and backend = backend and token = token
      and args = args and r = r and data = data]
  have f: "fetchIssues token github backend args =
     ([issues_request token args, automation_request args], Inr (filterPullRequests data))"
    by simp
  have d: "dispatch_fetchIssues token github backend args s =
     s\<lparr>loading := False, issues := filterPullRequests data, error := None\<rparr>"
    by (simp add: dispatch_fetchIssues_def f)
  have sub: "set (filterPullRequests data) \<subseteq> set data"
    by (simp add: filterPullRequests_def)
  from f d sub show "fetchIssues token github backend args =
     ([issues_request token args, automation_request args], Inr (filterPullRequests data)) \<and>
   dispatch_fetchIssues token github backend args s =
     s\<lparr>loading := False, issues := filterPullRequests data, error := None\<rparr> \<and>
   set (filterPullRequests data) \<subseteq> set data \<and>
   ((\<forall>x \<in> set data. automation_status x = Absent) \<longrightarrow>
    (\<forall>x \<in> set (filterPullRequests data). automation_status x = Absent))"
    by blast
qed

theorem status_fetch_failure_is_swallowed_witness:
  "snd (fetchIssues None github_ok backend_down demo_args) = Inr [mk_issue 1 None, mk_issue 3 None] \<and>
   snd (fetchIssues None github_ok backend_500 demo_args) = Inr [mk_issue 1 None, mk_issue 3 None] \<and>
   error (dispatch_fetchIssues None github_ok backend_down demo_args initialState) = None \<and>
   issues (dispatch_fetchIssues None github_ok backend_down demo_args initialState)
     = [mk_issue 1 None, mk_issue 3 None] \<and>
   automation_status (mk_issue 1 None) = Absent \<and> automation_status (mk_issue 3 None) = Absent"
proof -
  let ?r = "\<lparr>status_code = 200, statusText = ''OK'', json = Inr mixed_data\<rparr>"
  let ?ar = "\<lparr>status_code = 500, statusText = ''Internal Server Error'',
               json = Inl (Error ''Unexpected token'') :: js_error + automation_data\<rparr>"
  have fp: "filterPullRequests mixed_data = [mk_issue 1 None, mk_issue 3 None]"
    by (simp add: filterPullRequests_def not_pull_request_def mixed_data_def mk_issue_def
        pr_marker_def)
  have h1: "github_ok (issues_request None demo_args) = Responded ?r \<and> ok ?r \<and>
      json ?r = Inr mixed_data \<and>
      (backend_down (automation_request demo_args) = Threw (Error ''Failed to fetch'') \<or>
       backend_down (automation_request demo_args) = Responded ?ar \<and> \<not> ok ?ar)"
    by (simp add: github_ok_def backend_down_def ok_def)
  have h2: "github_ok (issues_request None demo_args) = Responded ?r \<and> ok ?r \<and>
      json ?r = Inr mixed_data \<and>
      (backend_500 (automation_request demo_args) = Threw (Error ''Failed to fetch'') \<or>
       backend_500 (automation_request demo_args) = Responded ?ar \<and> \<not> ok ?ar)"
    by (simp add: github_ok_def backend_500_def ok_def)
  note t1 = status_fetch_failure_is_swallowed [where github = github_ok and backend = backend_down
      and token = None and args = demo_args and r = ?r and data = mixed_data
      and e = "Error ''Failed to fetch''" and ar = ?ar and s = initialState, rule_format, OF h1]
  note t2 = status_fetch_failure_is_swallowed [where github = github_ok and backend = backend_500
      and token = None and args = demo_args and r = ?r and data = mixed_data
      and e = "Error ''Failed to fetch''" and ar = ?ar and s = initialState, rule_format, OF h2]
  from t1 have a: "snd (fetchIssues None github_ok backend_down demo_args) = Inr [mk_issue 1 None, mk_issue 3 None]"
    by (simp add: fp)
  from t2 have b: "snd (fetchIssues None github_ok backend_500 demo_args) = Inr [mk_issue 1 None, mk_issue 3 None]"
    by (simp add: fp)
  from t1 have c: "dispatch_fetchIssues None github_ok backend_down demo_args initialState
      = initialState\<lparr>loading := False, issues := [mk_issue 1 None, mk_issue 3 None], error := None\<rparr>"
    by (simp add: fp)
  show ?thesis
    unfolding a b c by (simp add: mk_issue_def)
qed

section \<open>C5: a failed issue fetch\<close>

text \<open>
  C5. For every response of the remote issue source that is not successful,
  \<^verbatim>\<open>fetchIssues\<close> sends the one request and throws an error whose message holds the
  status and the reason phrase; the rejected transition sets \<open>loading\<close> to false and
  \<open>error\<close> to that message, and the issue list keeps its previous value.
\<close>

theorem remote_failure_sets_error:
  "github (issues_request token args) = Responded r \<and> \<not> ok r \<longrightarrow>
   fetchIssues token github backend args =
     ([issues_request token args],
      Inl (Error (''GitHub API error: '' @ toString (status_code r) @ '' '' @ statusText r))) \<and>
   issuesReducer s0 (FetchIssuesRejected
       (Some (''GitHub API error: '' @ toString (status_code r) @ '' '' @ statusText r)))
     = s0\<lparr>loading := False,
          error := Some (''GitHub API error: '' @ toString (status_code r) @ '' '' @ statusText r)\<rparr> \<and>
   dispatch_fetchIssues token github backend args s =
     s\<lparr>loading := False,
       error := Some (''GitHub API error: '' @ toString (status_code r) @ '' '' @ statusText r)\<rparr> \<and>
   issues (dispatch_fetchIssues token github backend args s) = issues s"
proof (intro impI, elim conjE)
  assume g: "github (issues_request token args) = Responded r" "\<not> ok r"
  let ?m = "''GitHub API error: '' @ toString (status_code r) @ '' '' @ statusText r"
  from g fetchIssues_primary_not_ok [where github = github and backend = backend
      and token = token and args = args and r = r]
  have f: "fetchIssues token github backend args = ([issues_request token args], Inl (Error ?m))"
    by simp
  have r: "issuesReducer s0 (FetchIssuesRejected (Some ?m)) = s0\<lparr>loading := False, error := Some ?m\<rparr>"
    by (simp add: message_or_def)
  have d: "dispatch_fetchIssues token github backend args s = s\<lparr>loading := False, error := Some ?m\<rparr>"
    by (simp add: dispatch_fetchIssues_def f message_or_def)
  then have i: "issues (dispatch_fetchIssues token github backend args s) = issues s"
    by simp
  from f r d i show "fetchIssues token github backend args = ([issues_request token args], Inl (Error ?m)) \<and>
   issuesReducer s0 (FetchIssuesRejected (Some ?m)) = s0\<lparr>loading := False, error := Some ?m\<rparr> \<and>
   dispatch_fetchIssues token github backend args s = s\<lparr>loading := False, error := Some ?m\<rparr> \<and>
   issues (dispatch_fetchIssues token github backend args s) = issues s"
    by simp
qed

theorem remote_failure_sets_error_witness:
  "snd (fetchIssues None github_forbidden backend_down demo_args)
     = Inl (Error ''GitHub API error: 403 Forbidden'') \<and>
   fst (fetchIssues None github_forbidden backend_down demo_args) = [issues_request None demo_args] \<and>
   error (dispatch_fetchIssues None github_forbidden backend_down demo_args stale_state)
     = Some ''GitHub API error: 403 Forbidden'' \<and>
   loading (dispatch_fetchIssues None github_forbidden backend_down demo_args stale_state) = False \<and>
   issues (dispatch_fetchIssues None github_forbidden backend_down demo_args stale_state)
     = example_issues"
proof -
  let ?r = "\<lparr>status_code = 403, statusText = ''Forbidden'', json = Inr [] :: js_error + GitHubIssue list\<rparr>"
  have h: "github_forbidden (issues_request None demo_args) = Responded ?r \<and> \<not> ok ?r"
    by (simp add: github_forbidden_def ok_def)
  note t = remote_failure_sets_error [where github = github_forbidden and backend = backend_down
      and token = None and args = demo_args and r = ?r and s = stale_state and s0 = stale_state,
      rule_format, OF h]
  from t show ?thesis
    by (simp add: toString_403 stale_state_def)
qed

section \<open>C6: retrying the automation\<close>

text \<open>
  C6. For every owner, repository name and issue number, \<^verbatim>\<open>retryAutomation\<close> sends one
  request, a POST to the retry endpoint of that issue. On a response in 2xx it returns
  the number with \<open>pending\<close>, and the store sets the automation status of the issue
  with that number (the first in the list) to \<^verbatim>\<open>{ status: "pending" }\<close> from that one
  response; on a response outside 2xx it throws an error whose message holds the status,
  and the store is left as it was.
\<close>

theorem retry_sets_pending:
  "fst (retryAutomation backend args) = [retry_request args] \<and>
   http_method (retry_request args) = ''POST'' \<and>
   url (retry_request args)
     = ''http://localhost:8000/automation-status/'' @ retry_owner args @ ''/''
         @ retry_repo args @ ''/'' @ toString (issueNumber args) @ ''/retry'' \<and>
   (backend (retry_request args) = Responded r \<and> ok r \<longrightarrow>
      snd (retryAutomation backend args) = Inr (issueNumber args, ''pending'') \<and>
      (\<forall>i < length (issues s).
         number (issues s ! i) = issueNumber args \<and>
         (\<forall>j<i. number (issues s ! j) \<noteq> issueNumber args) \<longrightarrow>
           issues (dispatch_retryAutomation backend args s) ! i
             = (issues s ! i)\<lparr>automation_status := Val pending_status\<rparr> \<and>
           status pending_status = Some Pending)) \<and>
   (backend (retry_request args) = Responded r \<and> \<not> ok r \<longrightarrow>
      snd (retryAutomation backend args)
        = Inl (Error (''Failed to retry automation: '' @ toString (status_code r))) \<and>
      dispatch_retryAutomation backend args s = s)"
proof -
  have ok_case: "snd (retryAutomation backend args) = Inr (issueNumber args, ''pending'') \<and>
      dispatch_retryAutomation backend args s = assign_status (issueNumber args) pending_status s"
    if "backend (retry_request args) = Responded r" "ok r"
    using that by (simp add: retryAutomation_def dispatch_retryAutomation_def Let_def)
  have bad_case: "snd (retryAutomation backend args)
        = Inl (Error (''Failed to retry automation: '' @ toString (status_code r))) \<and>
      dispatch_retryAutomation backend args s = s"
    if "backend (retry_request args) = Responded r" "\<not> ok r"
    using that by (simp add: retryAutomation_def dispatch_retryAutomation_def Let_def)
  have upd: "issues (dispatch_retryAutomation backend args s) ! i
             = (issues s ! i)\<lparr>automation_status := Val pending_status\<rparr>"
    if "backend (retry_request args) = Responded r" "ok r" "i < length (issues s)"
      "number (issues s ! i) = issueNumber args"
      "\<forall>j<i. number (issues s ! j) \<noteq> issueNumber args" for i
    using ok_case [OF that(1,2)] assign_status_first [OF that(3,4,5)] by simp
  have p: "status pending_status = Some Pending"
    by (simp add: pending_status_def)
  have m: "http_method (retry_request args) = ''POST''"
    and u: "url (retry_request args)
     = ''http://localhost:8000/automation-status/'' @ retry_owner args @ ''/''
         @ retry_repo args @ ''/'' @ toString (issueNumber args) @ ''/retry''"
    by (simp_all add: retry_request_def)
  show ?thesis
    using retryAutomation_requests [of backend args] m u ok_case bad_case upd p
    by (intro conjI impI allI) blast+
qed

theorem retry_sets_pending_witness:
  "fst (retryAutomation retry_accepted retry_42)
     = [\<lparr>http_method = ''POST'',
         url = ''http://localhost:8000/automation-status/octo/demo/42/retry'',
         headers = [(''Content-Type'', ''application/json'')]\<rparr>] \<and>
   snd (retryAutomation retry_accepted retry_42) = Inr (42, ''pending'') \<and>
   issues (dispatch_retryAutomation retry_accepted retry_42 stale_state) ! 0
     = (mk_issue 42 None)\<lparr>automation_status := Val pending_status\<rparr> \<and>
   snd (retryAutomation retry_failed retry_42) = Inl (Error ''Failed to retry automation: 500'') \<and>
   dispatch_retryAutomation retry_failed retry_42 stale_state = stale_state"
proof -
  let ?good = "\<lparr>status_code = 200, statusText = ''OK'', json = Inr () :: js_error + unit\<rparr>"
  let ?bad = "\<lparr>status_code = 500, statusText = ''Internal Server Error'',
                json = Inr () :: js_error + unit\<rparr>"
  have rq: "retry_request retry_42
     = \<lparr>http_method = ''POST'',
         url = ''http://localhost:8000/automation-status/octo/demo/42/retry'',
         headers = [(''Content-Type'', ''application/json'')]\<rparr>"
    by (simp add: retry_request_def retry_42_def toString_42)
  have g: "retry_accepted (retry_request retry_42) = Responded ?good \<and> ok ?good"
    by (simp add: retry_accepted_def ok_def)
  have b: "retry_failed (retry_request retry_42) = Responded ?bad \<and> \<not> ok ?bad"
    by (simp add: retry_failed_def ok_def)
  have first: "0 < length (issues stale_state) \<and>
      number (issues stale_state ! 0) = issueNumber retry_42 \<and>
      (\<forall>j<0. number (issues stale_state ! j) \<noteq> issueNumber retry_42)"
    by (simp add: stale_state_def example_issues_def mk_issue_def retry_42_def)
  note tg = retry_sets_pending [where backend = retry_accepted and args = retry_42
      and r = ?good and s = stale_state]
  note tb = retry_sets_pending [where backend = retry_failed and args = retry_42
      and r = ?bad and s = stale_state]
  from tg have a1: "fst (retryAutomation retry_accepted retry_42) = [retry_request retry_42]"
    by blast
  from tg g have a2: "snd (retryAutomation retry_accepted retry_42) = Inr (issueNumber retry_42, ''pending'')"
    by blast
  from tg g first have a3: "issues (dispatch_retryAutomation retry_accepted retry_42 stale_state) ! 0
     = (issues stale_state ! 0)\<lparr>automation_status := Val pending_status\<rparr>"
    by blast
  from tb b have a4: "snd (retryAutomation retry_failed retry_42)
        = Inl (Error (''Failed to retry automation: '' @ toString (status_code ?bad)))"
    by blast
  from tb b have a5: "dispatch_retryAutomation retry_failed retry_42 stale_state = stale_state"
    by blast
  have n42: "issueNumber retry_42 = 42"
    by (simp add: retry_42_def)
  have i0: "issues stale_state ! 0 = mk_issue 42 None"
    by (simp add: stale_state_def example_issues_def)
  from a1 a2 a3 a4 a5 show ?thesis
    by (simp add: rq toString_500 n42 i0)
qed

section \<open>C7: setFilters merges a partial payload\<close>

text \<open>
  C7. For every store state and every partial payload, \<^verbatim>\<open>setFilters\<close> gives criteria in
  which each of the five fields that the payload has takes the payload's value and each
  field that it lacks keeps its value; nothing else in the store changes.
\<close>

theorem setFilters_right_biased:
  "(case p_state p of
      Some v \<Rightarrow> state (filters (issuesReducer s (SetFilters p))) = v
    | None \<Rightarrow> state (filters (issuesReducer s (SetFilters p))) = state (filters s)) \<and>
   (case p_assignee p of
      Some v \<Rightarrow> assignee (filters (issuesReducer s (SetFilters p))) = v
    | None \<Rightarrow> assignee (filters (issuesReducer s (SetFilters p))) = assignee (filters s)) \<and>
   (case p_label p of
      Some v \<Rightarrow> label (filters (issuesReducer s (SetFilters p))) = v
    | None \<Rightarrow> label (filters (issuesReducer s (SetFilters p))) = label (filters s)) \<and>
   (case p_sort p of
      Some v \<Rightarrow> sort_by (filters (issuesReducer s (SetFilters p))) = v
    | None \<Rightarrow> sort_by (filters (issuesReducer s (SetFilters p))) = sort_by (filters s)) \<and>
   (case p_direction p of
      Some v \<Rightarrow> direction (filters (issuesReducer s (SetFilters p))) = v
    | None \<Rightarrow> direction (filters (issuesReducer s (SetFilters p))) = direction (filters s)) \<and>
   issuesReducer s (SetFilters p) = s\<lparr>filters := filters (issuesReducer s (SetFilters p))\<rparr>"
  by (simp add: spread_filters_def split: option.split)

theorem setFilters_right_biased_witness:
  "filters (issuesReducer initialState (SetFilters open_only))
     = \<lparr>state = StateOpen, assignee = [], label = [], sort_by = Created, direction = Desc\<rparr>"
  using setFilters_right_biased [where p = open_only and s = initialState]
  by (simp add: open_only_def initialState_def)

section \<open>C8: the merge is idempotent\<close>

text \<open>
  C8. Merging the same mapping into the same issue list twice gives what merging it once
  gives.
\<close>

theorem merge_idempotent:
  "mergeAutomationStatus m (mergeAutomationStatus m xs) = mergeAutomationStatus m xs"
  by (simp add: mergeAutomationStatus_def mergeIssue_idem)

theorem merge_idempotent_witness:
  "mergeAutomationStatus example_statuses
     (mergeAutomationStatus example_statuses example_issues)
   = [(mk_issue 42 None)\<lparr>automation_status := Val running_status\<rparr>,
      (mk_issue 7 None)\<lparr>automation_status := Null\<rparr>]"
proof -
  have "mergeAutomationStatus example_statuses example_issues
   = [(mk_issue 42 None)\<lparr>automation_status := Val running_status\<rparr>,
      (mk_issue 7 None)\<lparr>automation_status := Null\<rparr>]"
    by (simp add: mergeAutomationStatus_def mergeIssue_def or_null_def example_issues_def
        example_statuses_def mk_issue_def toString_42 toString_7)
  with merge_idempotent [of example_statuses example_issues] show ?thesis
    by simp
qed

section \<open>C9: adding a repository that is already there\<close>

text \<open>
  C9. The dashboard is mounted only inside \<^verbatim>\<open>ProtectedRoute\<close>, which shows the login
  page instead when no user is signed in, so the handler runs with a signed-in user. For
  every such state, every repository list and every picked repository whose full name is
  that of a repository of the list, the handler shows "This repository is already added",
  makes no call to the create endpoint and leaves the repository store, and so the
  repository list, unchanged.
\<close>

theorem duplicate_rejected_before_any_call:
  "auth_user d = Some uid \<and> selectedRepoFromBrowser d = Some picked \<and>
   (\<exists>r \<in> set (repositories (store d)). full_name r = picked_full_name picked) \<longrightarrow>
   validateAndAddRepository post d =
     d\<lparr>toasts := toasts d @ [ToastError ''This repository is already added''],
       isValidating := False\<rparr> \<and>
   toasts (validateAndAddRepository post d)
     = toasts d @ [ToastError ''This repository is already added''] \<and>
   posts (validateAndAddRepository post d) = posts d \<and>
   store (validateAndAddRepository post d) = store d \<and>
   repositories (store (validateAndAddRepository post d)) = repositories (store d)"
proof (intro impI, elim conjE)
  assume u: "auth_user d = Some uid"
    and p: "selectedRepoFromBrowser d = Some picked"
    and dup: "\<exists>r \<in> set (repositories (store d)). full_name r = picked_full_name picked"
  from find_duplicate [OF dup] obtain existing
    where f: "find (\<lambda>r. full_name r = picked_full_name picked) (repositories (store d))
                = Some existing"
    by blast
  have a: "validateAndAddRepository post d =
        d\<lparr>toasts := toasts d @ [ToastError ''This repository is already added''],
          isValidating := False\<rparr>"
    using u p f by (simp add: validateAndAddRepository_def)
  show "validateAndAddRepository post d =
     d\<lparr>toasts := toasts d @ [ToastError ''This repository is already added''],
       isValidating := False\<rparr> \<and>
   toasts (validateAndAddRepository post d)
     = toasts d @ [ToastError ''This repository is already added''] \<and>
   posts (validateAndAddRepository post d) = posts d \<and>
   store (validateAndAddRepository post d) = store d \<and>
   repositories (store (validateAndAddRepository post d)) = repositories (store d)"
    unfolding a by simp
qed

theorem duplicate_rejected_before_any_call_witness:
  "auth_user signed_in_page = Some ''u-1'' \<and>
   selectedRepoFromBrowser signed_in_page = Some picked_demo \<and>
   full_name demo_repository = picked_full_name picked_demo \<and>
   repositories (store signed_in_page) = [demo_repository] \<and>
   toasts (validateAndAddRepository post_accepts signed_in_page)
     = [ToastError ''This repository is already added''] \<and>
   posts (validateAndAddRepository post_accepts signed_in_page) = [] \<and>
   repositories (store (validateAndAddRepository post_accepts signed_in_page)) = [demo_repository]"
proof -
  have h: "auth_user signed_in_page = Some ''u-1'' \<and>
   selectedRepoFromBrowser signed_in_page = Some picked_demo \<and>
   (\<exists>r \<in> set (repositories (store signed_in_page)). full_name r = picked_full_name picked_demo)"
    by (simp add: signed_in_page_def demo_repository_def picked_demo_def)
  note t = duplicate_rejected_before_any_call [where d = signed_in_page and picked = picked_demo
      and post = post_accepts and uid = "''u-1''", rule_format, OF h]
  from t have "validateAndAddRepository post_accepts signed_in_page =
        signed_in_page\<lparr>toasts := toasts signed_in_page
                                  @ [ToastError ''This repository is already added''],
          isValidating := False\<rparr>"
    by blast
  then show ?thesis
    by (simp add: signed_in_page_def demo_repository_def picked_demo_def)
qed

section \<open>C10: what a status update leaves alone\<close>

text \<open>
  C10. For every store state and issue number \<open>n\<close>, the action
  \<^verbatim>\<open>updateIssueAutomationStatus\<close> and the fulfilled case of \<^verbatim>\<open>retryAutomation\<close> leave the
  filters, the loading flag, the error and the length of the issue list as they are; an
  issue that differs afterwards has number \<open>n\<close>, is the first such issue of the list and
  differs in its automation status only, so at most one issue changes; and when no issue
  of the store has number \<open>n\<close> the whole state is unchanged.
\<close>

theorem status_update_frame:
  "(a = UpdateIssueAutomationStatus n v \<or> a = RetryAutomationFulfilled n st \<and> v = pending_status) \<longrightarrow>
   filters (issuesReducer s a) = filters s \<and>
   loading (issuesReducer s a) = loading s \<and>
   error (issuesReducer s a) = error s \<and>
   length (issues (issuesReducer s a)) = length (issues s) \<and>
   (\<forall>i < length (issues s).
      issues (issuesReducer s a) ! i \<noteq> issues s ! i \<longrightarrow>
        number (issues s ! i) = n \<and> (\<forall>j<i. number (issues s ! j) \<noteq> n) \<and>
        issues (issuesReducer s a) ! i = (issues s ! i)\<lparr>automation_status := Val v\<rparr>) \<and>
   (\<forall>i < length (issues s). \<forall>j < length (issues s).
      issues (issuesReducer s a) ! i \<noteq> issues s ! i \<and>
      issues (issuesReducer s a) ! j \<noteq> issues s ! j \<longrightarrow> i = j) \<and>
   ((\<forall>x \<in> set (issues s). number x \<noteq> n) \<longrightarrow> issuesReducer s a = s)"
proof
  assume "a = UpdateIssueAutomationStatus n v \<or> a = RetryAutomationFulfilled n st \<and> v = pending_status"
  then have r: "issuesReducer s a = assign_status n v s"
    by auto
  have one: "i = j"
    if "i < length (issues s)" "j < length (issues s)"
      "issues (assign_status n v s) ! i \<noteq> issues s ! i"
      "issues (assign_status n v s) ! j \<noteq> issues s ! j" for i j
  proof -
    from assign_status_changed [OF that(1) that(3)] assign_status_changed [OF that(2) that(4)]
    have "\<not> i < j" "\<not> j < i" by auto
    then show ?thesis by simp
  qed
  show "filters (issuesReducer s a) = filters s \<and>
   loading (issuesReducer s a) = loading s \<and>
   error (issuesReducer s a) = error s \<and>
   length (issues (issuesReducer s a)) = length (issues s) \<and>
   (\<forall>i < length (issues s).
      issues (issuesReducer s a) ! i \<noteq> issues s ! i \<longrightarrow>
        number (issues s ! i) = n \<and> (\<forall>j<i. number (issues s ! j) \<noteq> n) \<and>
        issues (issuesReducer s a) ! i = (issues s ! i)\<lparr>automation_status := Val v\<rparr>) \<and>
   (\<forall>i < length (issues s). \<forall>j < length (issues s).
      issues (issuesReducer s a) ! i \<noteq> issues s ! i \<and>
      issues (issuesReducer s a) ! j \<noteq> issues s ! j \<longrightarrow> i = j) \<and>
   ((\<forall>x \<in> set (issues s). number x \<noteq> n) \<longrightarrow> issuesReducer s a = s)"
    unfolding r
    using assign_status_frame [of n v s] assign_status_changed [of _ s n v]
      assign_status_absent [of s n v] one
    by blast
qed

theorem status_update_frame_witness:
  "issuesReducer stale_state (UpdateIssueAutomationStatus 99 running_status) = stale_state \<and>
   issuesReducer stale_state (RetryAutomationFulfilled 99 ''pending'') = stale_state \<and>
   filters (issuesReducer stale_state (UpdateIssueAutomationStatus 7 running_status))
     = filters stale_state \<and>
   issues (issuesReducer stale_state (UpdateIssueAutomationStatus 7 running_status))
     = [mk_issue 42 None, (mk_issue 7 None)\<lparr>automation_status := Val running_status\<rparr>]"
proof -
  have a: "issuesReducer stale_state (UpdateIssueAutomationStatus 99 running_status) = stale_state"
    using status_update_frame [where a = "UpdateIssueAutomationStatus 99 running_status"
        and n = 99 and v = running_status and s = stale_state] no_issue_99
    by blast
  have b: "issuesReducer stale_state (RetryAutomationFulfilled 99 ''pending'') = stale_state"
    using status_update_frame [where a = "RetryAutomationFulfilled 99 ''pending''"
        and n = 99 and v = pending_status and st = "''pending''" and s = stale_state] no_issue_99
    by blast
  have c: "filters (issuesReducer stale_state (UpdateIssueAutomationStatus 7 running_status))
     = filters stale_state"
    using status_update_frame [where a = "UpdateIssueAutomationStatus 7 running_status"
        and n = 7 and v = running_status and s = stale_state]
    by blast
  have d: "issues (issuesReducer stale_state (UpdateIssueAutomationStatus 7 running_status))
     = [mk_issue 42 None, (mk_issue 7 None)\<lparr>automation_status := Val running_status\<rparr>]"
    by (simp add: assign_status_def stale_state_def initialState_def example_issues_def
        mk_issue_def)
  from a b c d show ?thesis by simp
qed

end
